theory Spec2Isabelle
  imports Complex_Main "HOL-Library.AList"
begin

section \<open>utils/utilities.py: the gap-filling id allocator\<close>

text \<open>
  \<^verbatim>\<open>
  def fill_array_gaps(numbers: list[int], offset: int) -> int:
      numbers.sort()
      while offset in numbers:
          offset += 1
      return offset
  \<close>
  Python integers are unbounded, so they are \<^typ>\<open>int\<close>. The while loop is the
  recursive function \<open>fill_array_gaps_loop\<close>; it terminates because every round
  passes one more element of the finite list.
\<close>

function fill_array_gaps_loop :: "int list \<Rightarrow> int \<Rightarrow> int" where
  "fill_array_gaps_loop numbers offset =
     (if offset \<in> set numbers then fill_array_gaps_loop numbers (offset + 1) else offset)"
  by pat_completeness auto

termination fill_array_gaps_loop
proof (relation "measure (\<lambda>(numbers, offset). length (filter (\<lambda>k. offset \<le> k) numbers))")
  show "wf (measure (\<lambda>(numbers, offset). length (filter (\<lambda>k. offset \<le> k) numbers)))"
    by simp
next
  fix numbers :: "int list" and offset :: int
  assume "offset \<in> set numbers"
  then have "length (filter (\<lambda>k. offset + 1 \<le> k) numbers)
               < length (filter (\<lambda>k. offset \<le> k) numbers)"
  proof (induction numbers)
    case Nil
    then show ?case by simp
  next
    case (Cons a numbers)
    have le: "length (filter (\<lambda>k. offset + 1 \<le> k) numbers)
                \<le> length (filter (\<lambda>k. offset \<le> k) numbers)"
      by (induction numbers) auto
    show ?case
    proof (cases "offset = a")
      case True
      then show ?thesis using le by simp
    next
      case False
      then have "offset \<in> set numbers" using Cons.prems by simp
      then show ?thesis using Cons.IH by auto
    qed
  qed
  then show "((numbers, offset + 1), (numbers, offset))
               \<in> measure (\<lambda>(numbers, offset). length (filter (\<lambda>k. offset \<le> k) numbers))"
    by simp
qed

declare fill_array_gaps_loop.simps [simp del]

definition fill_array_gaps :: "int list \<Rightarrow> int \<Rightarrow> int" where
  "fill_array_gaps numbers offset = fill_array_gaps_loop (sort numbers) offset"

section \<open>runners/group_sync.py: data model\<close>

text \<open>
  The exceptions the modelled code can raise: \<^verbatim>\<open>xs[0]\<close> on an empty list,
  \<^verbatim>\<open>d[k]\<close> on a missing key and the interpreter's recursion limit.
\<close>

datatype py_error = IndexError | KeyError | RecursionError

text \<open>
  A log record is its level and the pieces of the f-string that was logged: literal
  text (\<open>Txt\<close>) and the interpolated values (\<open>Str\<close>, \<open>Num\<close>, \<open>Strs\<close>), in order.
\<close>

datatype level = DEBUG | INFO | WARNING | ERROR

datatype fpart = Txt string | Str string | Num int | Strs "string list"

type_synonym log_entry = "level \<times> fpart list"

datatype server = AD | OpenLDAP

datatype action = MODIFY_ADD | MODIFY_DELETE | MODIFY_REPLACE

text \<open>
  The dictionary \<^verbatim>\<open>{"sAMAccountName": ..., "country_code": ..., "account_active": ...}\<close>
  built by \<^verbatim>\<open>_get_account_data\<close>; \<open>country_code\<close> is \<^verbatim>\<open>full_output.get("c", None)\<close>.
\<close>

record account_data =
  sAMAccountName :: string
  country_code :: "string option"
  account_active :: bool

text \<open>
  The attributes \<^verbatim>\<open>_get_account_data\<close> reads from a primary-directory user entry.
  \<open>None\<close> stands for a read that raises inside the \<^verbatim>\<open>try\<close> block: a missing key, or
  for \<open>attr_sAMAccountName\<close> also a value without \<^verbatim>\<open>.lower()\<close>. A
  \<open>userAccountControl\<close> that is not an integer compares unequal to both disabled codes,
  as any other integer does. \<open>ad_object\<close> holds what flattening reads of an object.
\<close>

record ad_user_entry =
  userAccountControl :: "int option"
  attr_sAMAccountName :: "string option"
  attr_c :: "string option"

record ad_object =
  objectClass :: "string list"
  member :: "string list"

text \<open>
  One value of a group dictionary (\<^verbatim>\<open>{"id", "dn", "names", "server_type"}\<close>) and one
  value of the operations dictionary (\<^verbatim>\<open>{"additions", "deletions", "override_required"}\<close>).
  A Python dictionary iterates in insertion order, so dictionaries that are iterated are
  association lists, read with \<^const>\<open>map_of\<close>. The members of a primary-directory
  group are a Python set; \<open>names\<close> lists them in the order the set iterates.
\<close>

record group_entry =
  group_id :: int
  group_dn :: string
  names :: "string list"
  server_type :: server

record group_operation =
  additions :: "string list"
  deletions :: "string list"
  override_required :: bool

text \<open>
  A \<^verbatim>\<open>connection.modify(dn, {attribute: [(action, values)]})\<close> request and the
  connection it is sent on.
\<close>

record modify_request =
  target :: server
  request_dn :: string
  request_attribute :: string
  request_action :: action
  request_values :: "string list"

text \<open>
  What stays fixed while groups are reconciled: \<^verbatim>\<open>basic_config\<close> (exception table,
  country-control table, settings, command-line arguments, schema names) and the answers
  of the two directories. \<open>ad_user_search cn base\<close> is
  \<^verbatim>\<open>_user_search("ad", cn, base)\<close>, \<open>openldap_user_search f\<close> is
  \<^verbatim>\<open>_user_search("openldap", f)\<close>, \<open>ad_object_search f\<close> is the response of a
  primary-directory search with filter \<open>f\<close>, and \<open>modify_result earlier request\<close> is the
  result code the directory gives to \<open>request\<close> after the requests \<open>earlier\<close>. An empty or
  missing exception file (\<^verbatim>\<open>if not exceptions: exceptions = {}\<close>) is the empty list.

  \<open>state\<close> is what the object mutates: the class attributes \<^verbatim>\<open>user_lookup_cache\<close> and
  \<^verbatim>\<open>run_status\<close>, the log, and the modify requests sent so far.
\<close>

record env =
  exceptions :: "(string \<times> string) list"
  country_control :: "(string \<times> string list) list"
  total_change_threshold :: int
  deletions_change_threshold :: int
  additions_change_threshold :: int
  small_group_blind_update :: int
  universal_override :: bool
  group_override :: "string list"
  schema_base :: "server \<Rightarrow> string"
  schema_groups :: "server \<Rightarrow> string"
  schema_group_members :: "server \<Rightarrow> string"
  ad_user_search :: "string \<Rightarrow> string \<Rightarrow> ad_user_entry list"
  openldap_user_search :: "string \<Rightarrow> string list"
  ad_object_search :: "string \<Rightarrow> ad_object list"
  modify_result :: "modify_request list \<Rightarrow> modify_request \<Rightarrow> int"

record state =
  user_lookup_cache :: "string \<rightharpoonup> account_data"
  run_status :: bool
  log :: "log_entry list"
  modify_calls :: "modify_request list"

definition logger :: "level \<Rightarrow> fpart list \<Rightarrow> state \<Rightarrow> state" where
  "logger lv msg s = s\<lparr>log := log s @ [(lv, msg)]\<rparr>"

definition init_state :: state where
  "init_state = \<lparr>user_lookup_cache = Map.empty, run_status = True, log = [], modify_calls = []\<rparr>"

definition unknown_account :: account_data where
  "unknown_account = \<lparr>sAMAccountName = '''', country_code = None, account_active = False\<rparr>"

text \<open>
  \<^verbatim>\<open>str.lower()\<close> on the ASCII letters; \<^verbatim>\<open>s.split(",")[0]\<close>,
  \<^verbatim>\<open>s.split(",", 1)[-1]\<close> and \<^verbatim>\<open>s.split("=")[1]\<close> (IndexError when there is no
  separator).
\<close>

definition lower_char :: "char \<Rightarrow> char" where
  "lower_char ch =
     (if (65::nat) \<le> of_char ch \<and> of_char ch \<le> (90::nat)
      then char_of (of_char ch + (32::nat)) else ch)"

definition lower :: "string \<Rightarrow> string" where
  "lower str = map lower_char str"

definition split_first :: "char \<Rightarrow> string \<Rightarrow> string" where
  "split_first sep str = takeWhile (\<lambda>ch. ch \<noteq> sep) str"

definition split_rest :: "char \<Rightarrow> string \<Rightarrow> string" where
  "split_rest sep str = (if sep \<in> set str then tl (dropWhile (\<lambda>ch. ch \<noteq> sep) str) else str)"

definition split_second :: "char \<Rightarrow> string \<Rightarrow> py_error + string" where
  "split_second sep str =
     (case dropWhile (\<lambda>ch. ch \<noteq> sep) str of
        [] \<Rightarrow> Inl IndexError
      | _ # rest \<Rightarrow> Inr (takeWhile (\<lambda>ch. ch \<noteq> sep) rest))"

section \<open>runners/group_sync.py: identity resolution\<close>

text \<open>
  \<^verbatim>\<open>_get_account_data\<close>: every exception inside the \<^verbatim>\<open>try\<close> block is caught, logged
  and marks the run failed; \<open>account_active\<close> may already have been set when the login id
  cannot be read. \<^verbatim>\<open>_lookup_ad_user\<close> follows, branch by branch.
\<close>

definition get_account_data :: "env \<Rightarrow> string \<Rightarrow> state \<Rightarrow> account_data \<times> state" where
  "get_account_data e ad_user s =
     (let cn = split_first CHR '','' ad_user;
          base = split_rest CHR '','' ad_user;
          ms_ad_disabled_user = (514::int);
          ms_ad_disabled_user_no_expire = (66050::int);
          failed = (\<lambda>account_data.
             (account_data,
              (logger WARNING [Str cn, Txt '' does not exist in MS AD. Skipping''] s)
                \<lparr>run_status := False\<rparr>))
      in case ad_user_search e cn base of
           [] \<Rightarrow> failed unknown_account
         | entry # _ \<Rightarrow>
             (case userAccountControl entry of
                None \<Rightarrow> failed unknown_account
              | Some uac \<Rightarrow>
                  (let account_data =
                         (if uac \<noteq> ms_ad_disabled_user \<and> uac \<noteq> ms_ad_disabled_user_no_expire
                          then unknown_account\<lparr>account_active := True\<rparr>
                          else unknown_account)
                   in case attr_sAMAccountName entry of
                        None \<Rightarrow> failed account_data
                      | Some name \<Rightarrow>
                          (account_data\<lparr>sAMAccountName := lower name,
                                        country_code := attr_c entry\<rparr>, s))))"

definition lookup_ad_user :: "env \<Rightarrow> string \<Rightarrow> state \<Rightarrow> account_data \<times> state" where
  "lookup_ad_user e ad_user s =
     (case user_lookup_cache s ad_user of
        Some cached \<Rightarrow> (cached, s)
      | None \<Rightarrow>
          (let (account_data, s1) = get_account_data e ad_user s
           in case map_of (exceptions e) (sAMAccountName account_data) of
                Some mapped \<Rightarrow>
                  (let exception_lookup = openldap_user_search e (''uid='' @ mapped)
                   in if length exception_lookup = 1 then
                        (let account_data' = account_data\<lparr>sAMAccountName := mapped\<rparr>
                         in (account_data',
                             s1\<lparr>user_lookup_cache :=
                                  (user_lookup_cache s1)(ad_user \<mapsto> account_data')\<rparr>))
                      else if exception_lookup = [] then
                        (if mapped \<noteq> ''NONE'' then
                           (unknown_account,
                            (logger WARNING
                               [Str (sAMAccountName account_data),
                                Txt '' in exception list, but target not in OpenLDAP. Skipping.'']
                               s1)\<lparr>run_status := False\<rparr>)
                         else (unknown_account, s1))
                      else
                        (unknown_account,
                         (logger WARNING
                            [Str (sAMAccountName account_data),
                             Txt '' in exception list, but target matches multiple objects in OpenLDAP. Skipping.'']
                            s1)\<lparr>run_status := False\<rparr>))
              | None \<Rightarrow>
                  (let ldap_lookup =
                         openldap_user_search e (''uid='' @ sAMAccountName account_data)
                   in if length ldap_lookup = 1 then
                        (account_data,
                         s1\<lparr>user_lookup_cache :=
                              (user_lookup_cache s1)(ad_user \<mapsto> account_data)\<rparr>)
                      else
                        (unknown_account,
                         (logger WARNING
                            [Str (sAMAccountName account_data),
                             Txt '' not in OpenLDAP or more than one account found. Skipping.'']
                            s1)\<lparr>run_status := False\<rparr>))))"

section \<open>runners/group_sync.py: additions and deletions\<close>

text \<open>
  \<^verbatim>\<open>_check_country_control\<close>, \<^verbatim>\<open>_find_user_in_source_dict\<close>,
  \<^verbatim>\<open>_generate_additions\<close> and \<^verbatim>\<open>_generate_deletions\<close>. Each \<^verbatim>\<open>for\<close> loop is
  a recursive function over the list it iterates, with the loop's variables as arguments.
\<close>

definition check_country_control :: "env \<Rightarrow> account_data \<Rightarrow> string \<Rightarrow> state \<Rightarrow> bool \<times> state" where
  "check_country_control e account_data valid_sync_group s =
     (if country_control e \<noteq> [] then
        (case map_of (country_control e) valid_sync_group of
           Some allowed \<Rightarrow>
             (if country_code account_data = Some '''' then (True, s)
              else if (case country_code account_data of
                         None \<Rightarrow> False | Some code \<Rightarrow> code \<in> set allowed)
              then (True, s)
              else (False,
                    logger DEBUG
                      [Str valid_sync_group, Txt '': Is controlled and user '',
                       Str (sAMAccountName account_data),
                       Txt '' is not in a valid country. User excluded.''] s))
         | None \<Rightarrow> (True, s))
      else (True, s))"

fun find_user_loop :: "env \<Rightarrow> string list \<Rightarrow> string \<Rightarrow> bool \<Rightarrow> state \<Rightarrow> bool \<times> state" where
  "find_user_loop e [] destination_member found s = (found, s)"
| "find_user_loop e (source_member # rest) destination_member found s =
     (let (account_data, s1) = lookup_ad_user e source_member s
      in find_user_loop e rest destination_member
           (if destination_member = sAMAccountName account_data \<and> account_active account_data
            then True else found) s1)"

definition find_user_in_source_dict ::
  "env \<Rightarrow> (string \<times> group_entry) list \<Rightarrow> string \<Rightarrow> string \<Rightarrow> state \<Rightarrow> (py_error + bool) \<times> state" where
  "find_user_in_source_dict e source_dict destination_member valid_sync_group s =
     (case map_of source_dict valid_sync_group of
        None \<Rightarrow> (Inl KeyError, s)
      | Some source_group \<Rightarrow>
          (let (found, s1) = find_user_loop e (names source_group) destination_member False s
           in (Inr found, s1)))"

fun additions_loop ::
  "env \<Rightarrow> string list \<Rightarrow> (string \<times> group_entry) list \<Rightarrow> string \<Rightarrow> string list \<Rightarrow> state
     \<Rightarrow> (py_error + string list) \<times> state" where
  "additions_loop e [] destination_dict valid_sync_group adds s = (Inr adds, s)"
| "additions_loop e (source_member # rest) destination_dict valid_sync_group adds s =
     (let (account_data, s1) = lookup_ad_user e source_member s
      in case map_of destination_dict valid_sync_group of
           None \<Rightarrow> (Inl KeyError, s1)
         | Some destination_group \<Rightarrow>
             (if sAMAccountName account_data \<notin> set (names destination_group)
                 \<and> sAMAccountName account_data \<noteq> ''''
                 \<and> account_active account_data
              then (let (allowed, s2) = check_country_control e account_data valid_sync_group s1
                    in additions_loop e rest destination_dict valid_sync_group
                         (if allowed then adds @ [sAMAccountName account_data] else adds) s2)
              else additions_loop e rest destination_dict valid_sync_group adds s1))"

definition generate_additions ::
  "env \<Rightarrow> (string \<times> group_entry) list \<Rightarrow> (string \<times> group_entry) list \<Rightarrow> string \<Rightarrow> state
     \<Rightarrow> (py_error + string list) \<times> state" where
  "generate_additions e source_dict destination_dict valid_sync_group s =
     (case map_of source_dict valid_sync_group of
        None \<Rightarrow> (Inl KeyError, s)
      | Some source_group \<Rightarrow>
          additions_loop e (names source_group) destination_dict valid_sync_group [] s)"

fun deletions_loop ::
  "env \<Rightarrow> string list \<Rightarrow> (string \<times> group_entry) list \<Rightarrow> string \<Rightarrow> string list \<Rightarrow> state
     \<Rightarrow> (py_error + string list) \<times> state" where
  "deletions_loop e [] source_dict valid_sync_group dels s = (Inr dels, s)"
| "deletions_loop e (destination_member # rest) source_dict valid_sync_group dels s =
     (case find_user_in_source_dict e source_dict destination_member valid_sync_group s of
        (Inl err, s1) \<Rightarrow> (Inl err, s1)
      | (Inr found, s1) \<Rightarrow>
          deletions_loop e rest source_dict valid_sync_group
            (if \<not> found then dels @ [destination_member] else dels) s1)"

definition generate_deletions ::
  "env \<Rightarrow> (string \<times> group_entry) list \<Rightarrow> (string \<times> group_entry) list \<Rightarrow> string \<Rightarrow> state
     \<Rightarrow> (py_error + string list) \<times> state" where
  "generate_deletions e destination_dict source_dict valid_sync_group s =
     (case map_of destination_dict valid_sync_group of
        None \<Rightarrow> (Inl KeyError, s)
      | Some destination_group \<Rightarrow>
          deletions_loop e (names destination_group) source_dict valid_sync_group [] s)"

section \<open>runners/group_sync.py: change percentages and the override gate\<close>

text \<open>
  \<^verbatim>\<open>int(a / b * 100)\<close> is computed in binary64: \<^verbatim>\<open>a / b\<close> on integers is the
  quotient rounded to the nearest double (ties to even), the product with \<open>100\<close> is
  rounded again, and \<^verbatim>\<open>int\<close> truncates toward zero. A double is modelled by the
  rational it denotes; \<open>round_binary64\<close> rounds a rational to 53 significant bits
  (the exponent range is not limited, which no quotient of two list lengths reaches).
\<close>

function bitlen :: "int \<Rightarrow> nat" where
  "bitlen n = (if n \<le> 0 then 0 else Suc (bitlen (n div 2)))"
  by pat_completeness auto
termination
  by (relation "measure nat") auto

declare bitlen.simps [simp del]

definition pow2 :: "int \<Rightarrow> rat" where
  "pow2 k = (if 0 \<le> k then 2 ^ nat k else 1 / 2 ^ nat (- k))"

definition floor_log2 :: "rat \<Rightarrow> int" where
  "floor_log2 q =
     (let (a, b) = quotient_of q;
          d = int (bitlen a) - int (bitlen b)
      in if pow2 d \<le> q then d else d - 1)"

definition round_half_even :: "rat \<Rightarrow> int" where
  "round_half_even q =
     (let f = \<lfloor>q\<rfloor>; r = q - of_int f
      in if r < 1 / 2 then f
         else if 1 / 2 < r then f + 1
         else if even f then f else f + 1)"

definition round_binary64 :: "rat \<Rightarrow> rat" where
  "round_binary64 q =
     (if q = 0 then 0
      else (let k = floor_log2 \<bar>q\<bar> - 52
            in sgn q * of_int (round_half_even (\<bar>q\<bar> / pow2 k)) * pow2 k))"

definition py_truediv :: "int \<Rightarrow> int \<Rightarrow> rat" where
  "py_truediv a b = round_binary64 (of_int a / of_int b)"

definition py_float_mul :: "rat \<Rightarrow> rat \<Rightarrow> rat" where
  "py_float_mul x y = round_binary64 (x * y)"

definition py_int :: "rat \<Rightarrow> int" where
  "py_int x = (if 0 \<le> x then \<lfloor>x\<rfloor> else \<lceil>x\<rceil>)"

record change_data =
  original_len :: int
  deletions_len :: int
  additions_len :: int
  total_change_size :: int
  total_change_percent :: int
  deletions_change_percent :: int
  additions_change_percent :: int

definition determine_change_percent :: "string list \<Rightarrow> group_operation \<Rightarrow> change_data" where
  "determine_change_percent destination_list destination_operations =
     (let original = max (int (length destination_list)) 1;
          dels = int (length (deletions destination_operations));
          adds = int (length (additions destination_operations));
          total = adds + dels
      in \<lparr>original_len = original,
          deletions_len = dels,
          additions_len = adds,
          total_change_size = total,
          total_change_percent = py_int \<bar>py_float_mul (py_truediv total original) 100\<bar>,
          deletions_change_percent = py_int (py_float_mul (py_truediv dels original) 100),
          additions_change_percent = py_int (py_float_mul (py_truediv adds original) 100)\<rparr>)"

definition check_override_required ::
  "env \<Rightarrow> string list \<Rightarrow> group_operation \<Rightarrow> string \<Rightarrow> state \<Rightarrow> bool \<times> state" where
  "check_override_required e destination_list destination_operations group_name s =
     (let change = determine_change_percent destination_list destination_operations;
          s1 = logger DEBUG
                 [Str group_name, Txt '': Original length    -> '', Num (original_len change)] s;
          s2 = logger DEBUG
                 [Str group_name, Txt '': Total change delta -> '', Num (total_change_size change),
                  Txt '' ('', Num (total_change_percent change), Txt ''%)''] s1;
          s3 = logger DEBUG
                 [Str group_name, Txt '': Additions          -> '', Num (additions_len change),
                  Txt '' ('', Num (additions_change_percent change), Txt ''%)''] s2;
          s4 = logger DEBUG
                 [Str group_name, Txt '': Deletions          -> '', Num (deletions_len change),
                  Txt '' ('', Num (deletions_change_percent change), Txt ''%)''] s3;
          (o5, s5) =
             (if total_change_percent change > total_change_threshold e
              then (True,
                    logger DEBUG
                      [Str group_name, Txt '': Total change threshold breach. '',
                       Txt ''Total change percentage '', Num (total_change_percent change),
                       Txt ''% greater than configured threshold '',
                       Num (total_change_threshold e), Txt ''%.''] s4)
              else (False, s4));
          (o6, s6) =
             (if deletions_change_percent change > deletions_change_threshold e
              then (True,
                    logger DEBUG
                      [Str group_name, Txt '': Deletion change threshold breach. '',
                       Txt ''Deletion change percentage '', Num (deletions_change_percent change),
                       Txt ''% greater than configured threshold '',
                       Num (deletions_change_threshold e), Txt ''%''] s5)
              else (o5, s5));
          (o7, s7) =
             (if additions_change_percent change > additions_change_threshold e
              then (True,
                    logger DEBUG
                      [Str group_name, Txt '': Addition change threshold breach. '',
                       Txt ''Addition change percentage '', Num (additions_change_percent change),
                       Txt ''% greater than configured threshold '',
                       Num (additions_change_threshold e), Txt ''%''] s6)
              else (o6, s6))
      in if original_len change < small_group_blind_update e \<and> o7
         then (False,
               logger DEBUG
                 [Str group_name, Txt '': Group is below small_group_blind_update '',
                  Txt ''threshold of '', Num (small_group_blind_update e),
                  Txt '' so we will proceed anyway.''] s7)
         else (o7, s7))"

section \<open>runners/group_sync.py: applying the operations\<close>

text \<open>
  \<^verbatim>\<open>_check_process_changes\<close>, \<^verbatim>\<open>_modify_group\<close> and \<^verbatim>\<open>_process_operations\<close>.
\<close>

definition check_process_changes ::
  "env \<Rightarrow> (string \<times> group_entry) list \<Rightarrow> string \<Rightarrow> (string \<times> group_operation) list \<Rightarrow> state
     \<Rightarrow> (py_error + bool) \<times> state" where
  "check_process_changes e destination_group_dict grp group_operations s =
     (case map_of group_operations grp of
        None \<Rightarrow> (Inl KeyError, s)
      | Some ops \<Rightarrow>
          (if length (additions ops) > 0 \<or> length (deletions ops) > 0 then
             (if override_required ops then
                (if universal_override e \<or> grp \<in> set (group_override e) then
                   (Inr True,
                    logger INFO [Str grp, Txt '': Running in override. Applying all changes.''] s)
                 else
                   (let s1 = logger WARNING
                               [Str grp, Txt '': Breaches thresholds but override mode not set. '',
                                Txt ''Consult with owner and run in override.''] s
                    in case map_of destination_group_dict grp of
                         None \<Rightarrow> (Inl KeyError, s1)
                       | Some destination_group \<Rightarrow>
                           (let s2 = logger WARNING
                                       [Str grp, Txt '': Current members: '',
                                        Strs (names destination_group)] s1;
                                s3 = logger WARNING
                                       [Str grp, Txt '': Proposed additions: '',
                                        Strs (additions ops)] s2;
                                s4 = logger WARNING
                                       [Str grp, Txt '': Proposed deletions: '',
                                        Strs (deletions ops)] s3
                            in (Inr False, s4\<lparr>run_status := False\<rparr>))))
              else
                (Inr True,
                 logger INFO [Str grp, Txt '': No override required, proceeding with changes.''] s))
           else (Inr False, s)))"

fun show_action :: "action \<Rightarrow> string" where
  "show_action MODIFY_ADD = ''MODIFY_ADD''"
| "show_action MODIFY_DELETE = ''MODIFY_DELETE''"
| "show_action MODIFY_REPLACE = ''MODIFY_REPLACE''"

definition modify_group ::
  "env \<Rightarrow> server \<Rightarrow> server \<Rightarrow> string \<Rightarrow> action \<Rightarrow> string list \<Rightarrow> state
     \<Rightarrow> (py_error + unit) \<times> state" where
  "modify_group e srv_type connection grp_dn act user_list s =
     (case split_second CHR ''='' (split_first CHR '','' grp_dn) of
        Inl err \<Rightarrow> (Inl err, s)
      | Inr group_cn \<Rightarrow>
          (let group_object_name = schema_group_members e srv_type;
               group_modification =
                 \<lparr>target = connection, request_dn = grp_dn,
                  request_attribute = group_object_name,
                  request_action = act, request_values = user_list\<rparr>
           in if user_list \<noteq> [] then
                (let s1 = logger INFO
                            [Str group_cn, Txt '': Will '', Str (show_action act), Txt '': '',
                             Strs user_list] s;
                     s2 = s1\<lparr>modify_calls := modify_calls s1 @ [group_modification]\<rparr>
                 in if modify_result e (modify_calls s1) group_modification \<noteq> 0 then
                      (Inr (),
                       logger ERROR
                         [Str group_cn, Txt '': Failed to execute '', Str (show_action act)]
                         (s2\<lparr>run_status := False\<rparr>))
                    else (Inr (), s2))
              else
                (Inr (),
                 logger DEBUG
                   [Str group_cn, Txt '': Has no users to perform '', Str (show_action act)] s)))"

fun process_operations_loop ::
  "env \<Rightarrow> (string \<times> group_entry) list \<Rightarrow> (string \<times> group_operation) list \<Rightarrow> string list
     \<Rightarrow> state \<Rightarrow> (py_error + unit) \<times> state" where
  "process_operations_loop e destination_group_dict group_operations [] s = (Inr (), s)"
| "process_operations_loop e destination_group_dict group_operations (grp # rest) s =
     (let group_base = schema_groups e OpenLDAP @ '','' @ schema_base e OpenLDAP;
          grp_dn = ''cn='' @ grp @ '','' @ group_base
      in case check_process_changes e destination_group_dict grp group_operations s of
           (Inl err, s1) \<Rightarrow> (Inl err, s1)
         | (Inr process_changes, s1) \<Rightarrow>
             (if process_changes then
                (case map_of group_operations grp of
                   None \<Rightarrow> (Inl KeyError, s1)
                 | Some ops \<Rightarrow>
                     (case modify_group e OpenLDAP OpenLDAP grp_dn MODIFY_ADD (additions ops) s1 of
                        (Inl err, s2) \<Rightarrow> (Inl err, s2)
                      | (Inr _, s2) \<Rightarrow>
                          (case modify_group e OpenLDAP OpenLDAP grp_dn MODIFY_DELETE
                                  (deletions ops) s2 of
                             (Inl err, s3) \<Rightarrow> (Inl err, s3)
                           | (Inr _, s3) \<Rightarrow>
                               process_operations_loop e destination_group_dict group_operations
                                 rest s3)))
              else process_operations_loop e destination_group_dict group_operations rest s1))"

definition process_operations ::
  "env \<Rightarrow> (string \<times> group_entry) list \<Rightarrow> (string \<times> group_operation) list \<Rightarrow> state
     \<Rightarrow> (py_error + unit) \<times> state" where
  "process_operations e destination_group_dict group_operations s =
     process_operations_loop e destination_group_dict group_operations
       (map fst group_operations) s"

text \<open>
  \<^verbatim>\<open>_generate_group_operations\<close>. When \<^verbatim>\<open>_check_override_required\<close> is called the
  operations dictionary of the group has no \<^verbatim>\<open>override_required\<close> key yet; the field is
  not read there.
\<close>

fun group_operations_loop ::
  "env \<Rightarrow> (string \<times> group_entry) list \<Rightarrow> (string \<times> group_entry) list \<Rightarrow> string list
     \<Rightarrow> (string \<times> group_operation) list \<Rightarrow> state
     \<Rightarrow> (py_error + (string \<times> group_operation) list) \<times> state" where
  "group_operations_loop e source_dict destination_dict [] destination_operations s =
     (Inr destination_operations, s)"
| "group_operations_loop e source_dict destination_dict (valid_sync_group # rest)
       destination_operations s =
     (case generate_additions e source_dict destination_dict valid_sync_group s of
        (Inl err, s1) \<Rightarrow> (Inl err, s1)
      | (Inr adds, s1) \<Rightarrow>
          (case generate_deletions e destination_dict source_dict valid_sync_group s1 of
             (Inl err, s2) \<Rightarrow> (Inl err, s2)
           | (Inr dels, s2) \<Rightarrow>
               (case map_of destination_dict valid_sync_group of
                  None \<Rightarrow> (Inl KeyError, s2)
                | Some destination_group \<Rightarrow>
                    (let ops = \<lparr>additions = adds, deletions = dels, override_required = False\<rparr>;
                         (required, s3) =
                            check_override_required e (names destination_group) ops
                              valid_sync_group s2
                     in group_operations_loop e source_dict destination_dict rest
                          (AList.update valid_sync_group (ops\<lparr>override_required := required\<rparr>)
                             destination_operations)
                          s3))))"

definition generate_group_operations ::
  "env \<Rightarrow> (string \<times> group_entry) list \<Rightarrow> (string \<times> group_entry) list \<Rightarrow> string list \<Rightarrow> state
     \<Rightarrow> (py_error + (string \<times> group_operation) list) \<times> state" where
  "generate_group_operations e source_dict destination_dict valid_sync_groups s =
     group_operations_loop e source_dict destination_dict valid_sync_groups [] s"

section \<open>runners/group_sync.py: groups valid for synchronisation\<close>

text \<open>
  \<^verbatim>\<open>_build_sync_group_list\<close> iterates the first dictionary; \<open>first_entry\<close> is
  \<^verbatim>\<open>first_group_dict[group]\<close>.
\<close>

fun build_sync_group_loop ::
  "(string \<times> group_entry) list \<Rightarrow> (string \<times> group_entry) list \<Rightarrow> string list \<Rightarrow> state
     \<Rightarrow> string list \<times> state" where
  "build_sync_group_loop [] second_group_dict valid_sync_groups s = (valid_sync_groups, s)"
| "build_sync_group_loop ((grp, first_entry) # rest) second_group_dict valid_sync_groups s =
     (case map_of second_group_dict grp of
        Some second_entry \<Rightarrow>
          (if group_id first_entry = group_id second_entry then
             build_sync_group_loop rest second_group_dict (valid_sync_groups @ [grp])
               (logger INFO [Str grp, Txt '' exists and IDs match: valid for sync''] s)
           else
             build_sync_group_loop rest second_group_dict valid_sync_groups
               (logger DEBUG [Str grp, Txt '' exists but GID mismatch''] s))
      | None \<Rightarrow>
          build_sync_group_loop rest second_group_dict valid_sync_groups
            (logger DEBUG [Str grp, Txt '' only exists in one directory''] s))"

definition build_sync_group_list ::
  "(string \<times> group_entry) list \<Rightarrow> (string \<times> group_entry) list \<Rightarrow> state \<Rightarrow> string list \<times> state" where
  "build_sync_group_list first_group_dict second_group_dict s =
     build_sync_group_loop first_group_dict second_group_dict [] s"

section \<open>runners/group_sync.py: flattening nested groups\<close>

text \<open>
  \<^verbatim>\<open>_check_ad_object_type\<close> answers from \<^verbatim>\<open>object_lookup_cache\<close> or from the
  directory; the cache only stores the directory's answer for a filter, so both are
  \<open>ad_object_search\<close>. \<^verbatim>\<open>_flatten_nested_group\<close> recurses inside its loop:
  \<open>flatten_members\<close> is the loop, with the local variables \<^verbatim>\<open>return_set\<close> and
  \<^verbatim>\<open>nested_members\<close> as arguments; \<^verbatim>\<open>called_groups\<close> is one list shared by all
  calls, so it is passed on and returned. \<^verbatim>\<open>called_groups.extend(ad_object)\<close> appends
  the characters of the string, one element each. \<open>depth\<close> is the number of nested
  calls the interpreter still allows (the recursion limit); one more raises
  RecursionError.
\<close>

definition check_ad_object_type :: "env \<Rightarrow> string \<Rightarrow> string \<Rightarrow> py_error + bool" where
  "check_ad_object_type e ad_obj object_type =
     (case ad_object_search e (''(distinguishedName='' @ ad_obj @ '')'') of
        [] \<Rightarrow> Inl IndexError
      | response # _ \<Rightarrow> Inr (object_type \<in> set (objectClass response)))"

fun flatten_members ::
  "env \<Rightarrow> nat \<Rightarrow> string list \<Rightarrow> string list \<Rightarrow> string set \<Rightarrow> string set \<Rightarrow> state
     \<Rightarrow> py_error + (string set \<times> string list \<times> state)" where
  "flatten_members e depth [] called_groups return_set nested_members s =
     Inr (nested_members \<union> return_set, called_groups, s)"
| "flatten_members e depth (ad_obj # rest) called_groups return_set nested_members s =
     (case check_ad_object_type e ad_obj ''user'' of
        Inl err \<Rightarrow> Inl err
      | Inr True \<Rightarrow>
          flatten_members e depth rest called_groups (insert ad_obj return_set) nested_members s
      | Inr False \<Rightarrow>
          (case check_ad_object_type e ad_obj ''group'' of
             Inl err \<Rightarrow> Inl err
           | Inr True \<Rightarrow>
               (if ad_obj \<notin> set called_groups then
                  (case ad_object_search e (''(distinguishedName='' @ ad_obj @ '')'') of
                     [] \<Rightarrow> Inl IndexError
                   | ad_search_result # _ \<Rightarrow>
                       (case depth of
                          0 \<Rightarrow> Inl RecursionError
                        | Suc d \<Rightarrow>
                            (case flatten_members e d (member ad_search_result)
                                    (called_groups @ map (\<lambda>ch. [ch]) ad_obj) {} {} s of
                               Inl err \<Rightarrow> Inl err
                             | Inr (flattened, called_groups', s') \<Rightarrow>
                                 flatten_members e depth rest called_groups' return_set
                                   flattened s')))
                else flatten_members e depth rest called_groups return_set nested_members s)
           | Inr False \<Rightarrow>
               flatten_members e depth rest called_groups return_set nested_members
                 (logger WARNING [Txt ''We found an object of unexpected type. '', Str ad_obj] s)))"

definition flatten_nested_group ::
  "env \<Rightarrow> nat \<Rightarrow> string list \<Rightarrow> string list \<Rightarrow> state
     \<Rightarrow> py_error + (string set \<times> string list \<times> state)" where
  "flatten_nested_group e depth called_groups group_members s =
     flatten_members e depth group_members called_groups {} {} s"

section \<open>Notions used to state the properties\<close>

text \<open>
  The cache invariant of a run: every cached answer is the one that resolving the same
  reference with an empty cache stores. It holds at the start of a run (the cache is
  empty) and \<open>lookup_ad_user\<close>, the only function that writes the cache, keeps it.
\<close>

definition cache_sound :: "env \<Rightarrow> state \<Rightarrow> bool" where
  "cache_sound e s \<longleftrightarrow>
     (\<forall>ad_user cached. user_lookup_cache s ad_user = Some cached \<longrightarrow>
        user_lookup_cache (snd (lookup_ad_user e ad_user init_state)) ad_user = Some cached)"

section \<open>A small pair of directories for the examples\<close>

text \<open>
  The primary directory of the examples: two nested groups under \<open>CN=all\<close>, one user
  each, and two groups \<open>CN=red\<close> and \<open>CN=blue\<close> that contain each other, reached from
  \<open>CN=top\<close>. \<open>John Doe\<close> has the login id \<open>johnd\<close>, which the exception table maps to
  \<open>NONE\<close>; \<open>Jane Doe\<close> (\<open>janed\<close>) has an account in the secondary directory; nobody
  there has the uid \<open>NONE\<close>.
\<close>

definition user_classes :: "string list" where
  "user_classes = [''top'', ''person'', ''organizationalPerson'', ''user'']"

definition example_objects :: "(string \<times> ad_object) list" where
  "example_objects =
     [(''CN=all,DC=ex'', \<lparr>objectClass = [''top'', ''group''],
                          member = [''CN=eng,DC=ex'', ''CN=ops,DC=ex'']\<rparr>),
      (''CN=eng,DC=ex'', \<lparr>objectClass = [''top'', ''group''], member = [''CN=alice,DC=ex'']\<rparr>),
      (''CN=ops,DC=ex'', \<lparr>objectClass = [''top'', ''group''], member = [''CN=bob,DC=ex'']\<rparr>),
      (''CN=alice,DC=ex'', \<lparr>objectClass = user_classes, member = []\<rparr>),
      (''CN=bob,DC=ex'', \<lparr>objectClass = user_classes, member = []\<rparr>),
      (''CN=top,DC=ex'', \<lparr>objectClass = [''top'', ''group''], member = [''CN=red,DC=ex'']\<rparr>),
      (''CN=red,DC=ex'', \<lparr>objectClass = [''top'', ''group''], member = [''CN=blue,DC=ex'']\<rparr>),
      (''CN=blue,DC=ex'', \<lparr>objectClass = [''top'', ''group''], member = [''CN=red,DC=ex'']\<rparr>)]"

definition example_users :: "(string \<times> ad_user_entry) list" where
  "example_users =
     [(''CN=John Doe'', \<lparr>userAccountControl = Some 512, attr_sAMAccountName = Some ''JohnD'',
                         attr_c = Some ''GB''\<rparr>),
      (''CN=Jane Doe'', \<lparr>userAccountControl = Some 512, attr_sAMAccountName = Some ''janed'',
                         attr_c = Some ''TW''\<rparr>)]"

definition example_env :: env where
  "example_env =
     \<lparr>exceptions = [(''johnd'', ''NONE'')],
      country_control = [(''G'', [''GB''])],
      total_change_threshold = 50,
      deletions_change_threshold = 30,
      additions_change_threshold = 50,
      small_group_blind_update = 5,
      universal_override = False,
      group_override = [],
      schema_base = (\<lambda>srv. ''dc=example,dc=com''),
      schema_groups = (\<lambda>srv. case srv of AD \<Rightarrow> ''OU=Groups'' | OpenLDAP \<Rightarrow> ''ou=Group''),
      schema_group_members = (\<lambda>srv. case srv of AD \<Rightarrow> ''member'' | OpenLDAP \<Rightarrow> ''memberUid''),
      ad_user_search = (\<lambda>cn base. case map_of example_users cn of
                                       None \<Rightarrow> [] | Some entry \<Rightarrow> [entry]),
      openldap_user_search = (\<lambda>f. if f = ''uid=janed''
                                    then [''uid=janed,ou=People,dc=example,dc=com''] else []),
      ad_object_search =
        (\<lambda>f. case map_of (map (\<lambda>(dn, obj). (''(distinguishedName='' @ dn @ '')'', obj))
                               example_objects) f of
                None \<Rightarrow> [] | Some obj \<Rightarrow> [obj]),
      modify_result = (\<lambda>earlier request. 0)\<rparr>"

definition example_group :: "server \<Rightarrow> int \<Rightarrow> string list \<Rightarrow> group_entry" where
  "example_group srv gid members =
     \<lparr>group_id = gid, group_dn = ''cn=G'', names = members, server_type = srv\<rparr>"

definition numbered :: "string \<Rightarrow> nat \<Rightarrow> string list" where
  "numbered prefix n = map (\<lambda>k. prefix @ replicate k CHR ''i'') [0..<n]"

section \<open>Properties of the allocator\<close>

lemma fill_array_gaps_loop_ge: "offset \<le> fill_array_gaps_loop numbers offset"
proof (induction numbers offset rule: fill_array_gaps_loop.induct)
  case (1 numbers offset)
  show ?case
  proof (cases "offset \<in> set numbers")
    case True
    then show ?thesis using "1.IH" by (simp add: fill_array_gaps_loop.simps [of numbers offset])
  next
    case False
    then show ?thesis by (simp add: fill_array_gaps_loop.simps [of numbers offset])
  qed
qed

lemma fill_array_gaps_loop_fresh: "fill_array_gaps_loop numbers offset \<notin> set numbers"
proof (induction numbers offset rule: fill_array_gaps_loop.induct)
  case (1 numbers offset)
  show ?case
  proof (cases "offset \<in> set numbers")
    case True
    then show ?thesis using "1.IH" by (simp add: fill_array_gaps_loop.simps [of numbers offset])
  next
    case False
    then show ?thesis by (simp add: fill_array_gaps_loop.simps [of numbers offset])
  qed
qed

lemma fill_array_gaps_loop_below:
  "offset \<le> k \<Longrightarrow> k < fill_array_gaps_loop numbers offset \<Longrightarrow> k \<in> set numbers"
proof (induction numbers offset rule: fill_array_gaps_loop.induct)
  case (1 numbers offset)
  show ?case
  proof (cases "offset \<in> set numbers")
    case True
    then have eq: "fill_array_gaps_loop numbers offset = fill_array_gaps_loop numbers (offset + 1)"
      by (simp add: fill_array_gaps_loop.simps [of numbers offset])
    show ?thesis
    proof (cases "k = offset")
      case True
      then show ?thesis using \<open>offset \<in> set numbers\<close> by simp
    next
      case False
      then have "offset + 1 \<le> k" using "1.prems" by simp
      then show ?thesis using "1.IH" [OF True] "1.prems" eq by simp
    qed
  next
    case False
    then have "fill_array_gaps_loop numbers offset = offset"
      by (simp add: fill_array_gaps_loop.simps [of numbers offset])
    then show ?thesis using "1.prems" by simp
  qed
qed

text \<open>
  C5. The allocator returns the smallest id that is at least the minimum and not in
  the list: the result is at least the minimum, is not in use, and every id from the
  minimum up to the result is in use; the four examples of the specification follow.
\<close>

theorem fill_array_gaps_smallest_free:
  "offset \<le> fill_array_gaps numbers offset
   \<and> fill_array_gaps numbers offset \<notin> set numbers
   \<and> (\<forall>k. offset \<le> k \<and> k < fill_array_gaps numbers offset \<longrightarrow> k \<in> set numbers)
   \<and> fill_array_gaps [200, 202, 190, 201, 204] 200 = 203
   \<and> fill_array_gaps [202, 190, 201, 203, 200] 200 = 204
   \<and> fill_array_gaps [202, 190, 201] 200 = 200
   \<and> fill_array_gaps [198, 190, 50] 200 = 200"
proof -
  have ge: "offset \<le> fill_array_gaps numbers offset"
    by (simp add: fill_array_gaps_def fill_array_gaps_loop_ge)
  have fresh: "fill_array_gaps numbers offset \<notin> set numbers"
    using fill_array_gaps_loop_fresh [of "sort numbers" offset]
    by (simp add: fill_array_gaps_def)
  have below: "\<forall>k. offset \<le> k \<and> k < fill_array_gaps numbers offset \<longrightarrow> k \<in> set numbers"
    using fill_array_gaps_loop_below [of offset _ "sort numbers"]
    by (auto simp: fill_array_gaps_def)
  have e1: "fill_array_gaps [200, 202, 190, 201, 204] 200 = 203" by code_simp
  have e2: "fill_array_gaps [202, 190, 201, 203, 200] 200 = 204" by code_simp
  have e3: "fill_array_gaps [202, 190, 201] 200 = 200" by code_simp
  have e4: "fill_array_gaps [198, 190, 50] 200 = 200" by code_simp
  show ?thesis using ge fresh below e1 e2 e3 e4 by blast
qed

theorem fill_array_gaps_smallest_free_witness:
  "(200::int) \<le> 201 \<and> 201 < fill_array_gaps [200, 202, 190, 201, 204] 200
   \<and> (201::int) \<in> set [200, 202, 190, 201, 204]
   \<and> fill_array_gaps [200, 202, 190, 201, 204] 200 = 203"
  using fill_array_gaps_smallest_free [of 200 "[200, 202, 190, 201, 204]"] by simp
section \<open>The country-control gate\<close>

text \<open>
  C7. For a group listed in the country-control table a user is allowed exactly when the
  country code is the empty string or is in the group's allowed list; for a group that
  is not listed (in particular when the table is empty) every user is allowed; a user
  with an empty country code is allowed for every group.
\<close>

theorem check_country_control_gate:
  "(map_of (country_control e) grp = Some allowed \<longrightarrow>
      fst (check_country_control e account grp s)
        = (country_code account = Some ''''
           \<or> (\<exists>code. country_code account = Some code \<and> code \<in> set allowed)))
   \<and> (map_of (country_control e) grp = None \<longrightarrow> fst (check_country_control e account grp s))
   \<and> (country_code account = Some '''' \<longrightarrow> fst (check_country_control e account grp s))"
  by (cases "country_control e")
     (auto simp: check_country_control_def split: option.splits)

theorem check_country_control_gate_witness:
  "map_of (country_control example_env) ''G'' = Some [''GB'']
   \<and> \<not> fst (check_country_control example_env
              \<lparr>sAMAccountName = ''janed'', country_code = Some ''TW'', account_active = True\<rparr>
              ''G'' init_state)
   \<and> fst (check_country_control example_env
            \<lparr>sAMAccountName = ''svc'', country_code = Some '''', account_active = True\<rparr>
            ''G'' init_state)
   \<and> fst (check_country_control example_env
            \<lparr>sAMAccountName = ''johnd'', country_code = Some ''GB'', account_active = True\<rparr>
            ''G'' init_state)
   \<and> map_of (country_control example_env) ''H'' = None
   \<and> fst (check_country_control example_env
            \<lparr>sAMAccountName = ''janed'', country_code = Some ''TW'', account_active = True\<rparr>
            ''H'' init_state)"
  using
    check_country_control_gate [of example_env "''G''" "[''GB'']"
      "\<lparr>sAMAccountName = ''janed'', country_code = Some ''TW'', account_active = True\<rparr>" init_state]
    check_country_control_gate [of example_env "''G''" "[''GB'']"
      "\<lparr>sAMAccountName = ''svc'', country_code = Some '''', account_active = True\<rparr>" init_state]
    check_country_control_gate [of example_env "''G''" "[''GB'']"
      "\<lparr>sAMAccountName = ''johnd'', country_code = Some ''GB'', account_active = True\<rparr>" init_state]
    check_country_control_gate [of example_env "''H''" "[]"
      "\<lparr>sAMAccountName = ''janed'', country_code = Some ''TW'', account_active = True\<rparr>" init_state]
  by (simp add: example_env_def)

section \<open>The small-group exception\<close>

text \<open>
  C4. When the original member count of the group (at least 1) is strictly below
  \<open>small_group_blind_update\<close>, \<open>check_override_required\<close> returns False, whatever the
  change percentages and the three thresholds are.
\<close>

theorem check_override_required_small_group:
  assumes "original_len (determine_change_percent destination_list ops) < small_group_blind_update e"
  shows "fst (check_override_required e destination_list ops grp s) = False"
  using assms
  by (simp add: check_override_required_def Let_def split: prod.splits)

theorem check_override_required_small_group_witness:
  "original_len (determine_change_percent [''carol'']
       \<lparr>additions = numbered ''new'' 5, deletions = numbered ''old'' 3,
        override_required = False\<rparr>) < small_group_blind_update example_env
   \<and> fst (check_override_required example_env [''carol'']
       \<lparr>additions = numbered ''new'' 5, deletions = numbered ''old'' 3,
        override_required = False\<rparr> ''G'' init_state) = False"
proof -
  have small: "original_len (determine_change_percent [''carol'']
       \<lparr>additions = numbered ''new'' 5, deletions = numbered ''old'' 3,
        override_required = False\<rparr>) < small_group_blind_update example_env"
    by (simp add: determine_change_percent_def Let_def example_env_def)
  show ?thesis
    using small check_override_required_small_group [OF small, of "''G''" init_state] by simp
qed

section \<open>Groups valid for synchronisation\<close>

lemma build_sync_group_loop_set:
  "set (fst (build_sync_group_loop xs second valid s))
     = set valid \<union> {g. \<exists>e1 e2. (g, e1) \<in> set xs \<and> map_of second g = Some e2
                              \<and> group_id e1 = group_id e2}"
proof (induction xs arbitrary: valid s)
  case Nil
  then show ?case by simp
next
  case (Cons x xs)
  obtain g e1 where x: "x = (g, e1)" by (cases x)
  show ?case
    unfolding x by (auto simp: Cons.IH split: option.splits)
qed

text \<open>
  C6. A group name is in the list of valid groups exactly when both dictionaries have it
  and its numeric id is the same in both. (The keys of a dictionary are distinct.)
\<close>

theorem build_sync_group_list_iff:
  assumes "distinct (map fst first_group_dict)"
  shows "g \<in> set (fst (build_sync_group_list first_group_dict second_group_dict s))
           \<longleftrightarrow> (\<exists>e1 e2. map_of first_group_dict g = Some e1
                        \<and> map_of second_group_dict g = Some e2
                        \<and> group_id e1 = group_id e2)"
  using assms
  by (auto simp: build_sync_group_list_def build_sync_group_loop_set)

theorem build_sync_group_list_iff_witness:
  "distinct (map fst [(''G'', example_group AD 5 []), (''H'', example_group AD 7 [])])
   \<and> ''G'' \<in> set (fst (build_sync_group_list
        [(''G'', example_group AD 5 []), (''H'', example_group AD 7 [])]
        [(''G'', example_group OpenLDAP 5 []), (''H'', example_group OpenLDAP 8 [])] init_state))
   \<and> ''H'' \<notin> set (fst (build_sync_group_list
        [(''G'', example_group AD 5 []), (''H'', example_group AD 7 [])]
        [(''G'', example_group OpenLDAP 5 []), (''H'', example_group OpenLDAP 8 [])] init_state))"
proof -
  have d: "distinct (map fst [(''G'', example_group AD 5 []), (''H'', example_group AD 7 [])])"
    by simp
  show ?thesis
    using d
      build_sync_group_list_iff [OF d, of "''G''"
        "[(''G'', example_group OpenLDAP 5 []), (''H'', example_group OpenLDAP 8 [])]" init_state]
      build_sync_group_list_iff [OF d, of "''H''"
        "[(''G'', example_group OpenLDAP 5 []), (''H'', example_group OpenLDAP 8 [])]" init_state]
    by (simp add: example_group_def)
qed

section \<open>Flattening\<close>

lemma example_search_red:
  "ad_object_search example_env ''(distinguishedName=CN=red,DC=ex)''
     = [\<lparr>objectClass = [''top'', ''group''], member = [''CN=blue,DC=ex'']\<rparr>]"
  by (simp add: example_env_def example_objects_def)

lemma example_search_blue:
  "ad_object_search example_env ''(distinguishedName=CN=blue,DC=ex)''
     = [\<lparr>objectClass = [''top'', ''group''], member = [''CN=red,DC=ex'']\<rparr>]"
  by (simp add: example_env_def example_objects_def)

lemma red_blue_recursion:
  assumes "''CN=red,DC=ex'' \<notin> set called" and "''CN=blue,DC=ex'' \<notin> set called"
  shows "flatten_members example_env depth [''CN=red,DC=ex''] called rs nm s = Inl RecursionError
       \<and> flatten_members example_env depth [''CN=blue,DC=ex''] called rs nm s = Inl RecursionError"
  using assms
proof (induction depth arbitrary: called rs nm s)
  case 0
  then show ?case
    by (simp add: check_ad_object_type_def example_search_red example_search_blue)
next
  case (Suc depth)
  have r: "''CN=red,DC=ex'' \<notin> set (called @ map (\<lambda>ch. [ch]) ''CN=red,DC=ex'')"
    and b: "''CN=blue,DC=ex'' \<notin> set (called @ map (\<lambda>ch. [ch]) ''CN=red,DC=ex'')"
    and r': "''CN=red,DC=ex'' \<notin> set (called @ map (\<lambda>ch. [ch]) ''CN=blue,DC=ex'')"
    and b': "''CN=blue,DC=ex'' \<notin> set (called @ map (\<lambda>ch. [ch]) ''CN=blue,DC=ex'')"
    using Suc.prems by auto
  have 1: "flatten_members example_env depth [''CN=blue,DC=ex'']
             (called @ map (\<lambda>ch. [ch]) ''CN=red,DC=ex'') {} {} s = Inl RecursionError"
    using Suc.IH [OF r b] by blast
  have 2: "flatten_members example_env depth [''CN=red,DC=ex'']
             (called @ map (\<lambda>ch. [ch]) ''CN=blue,DC=ex'') {} {} s = Inl RecursionError"
    using Suc.IH [OF r' b'] by blast
  show ?case
    using Suc.prems 1 2
    by (simp add: check_ad_object_type_def example_search_red example_search_blue)
qed

lemma flatten_example_nested:
  "map_sum id fst (flatten_nested_group example_env 10 [''CN=all,DC=ex'']
       [''CN=eng,DC=ex'', ''CN=ops,DC=ex''] init_state) = Inr {''CN=bob,DC=ex''}"
  by (simp add: flatten_nested_group_def check_ad_object_type_def example_env_def
        example_objects_def user_classes_def)

text \<open>
  C1 (the code departs from the claim). Flattening \<open>CN=all\<close>, whose members are the groups
  \<open>CN=eng\<close> (member \<open>CN=alice\<close>) and \<open>CN=ops\<close> (member \<open>CN=bob\<close>), returns only
  \<open>CN=bob\<close>: the result of each nested group replaces the one before. Flattening
  \<open>CN=top\<close>, whose member \<open>CN=red\<close> contains \<open>CN=blue\<close>, which contains \<open>CN=red\<close>, does
  not return for any recursion limit: the accumulator receives the characters of a
  group's name, never the name, so the two groups expand each other until the
  interpreter raises RecursionError.
\<close>

theorem flatten_nested_group_defects:
  "map_sum id fst (flatten_nested_group example_env 10 [''CN=all,DC=ex'']
       [''CN=eng,DC=ex'', ''CN=ops,DC=ex''] init_state) = Inr {''CN=bob,DC=ex''}
   \<and> (\<forall>depth. flatten_nested_group example_env depth [''CN=top,DC=ex'']
          [''CN=red,DC=ex''] init_state = Inl RecursionError)"
proof -
  have "flatten_nested_group example_env depth [''CN=top,DC=ex''] [''CN=red,DC=ex''] init_state
          = Inl RecursionError" for depth
    unfolding flatten_nested_group_def
    using red_blue_recursion [of "[''CN=top,DC=ex'']" depth "{}" "{}" init_state] by simp
  then show ?thesis using flatten_example_nested by blast
qed

section \<open>Change percentages\<close>

lemma length_numbered: "length (numbered prefix n) = n"
  by (simp add: numbered_def)

lemma percent_29_of_100: "py_int (py_float_mul (py_truediv 29 100) 100) = 28"
  by code_simp

lemma percent_8_5_3_of_1:
  "py_int \<bar>py_float_mul (py_truediv 8 1) 100\<bar> = 800
   \<and> py_int (py_float_mul (py_truediv 3 1) 100) = 300
   \<and> py_int (py_float_mul (py_truediv 5 1) 100) = 500"
  by code_simp

text \<open>
  C3 (the code departs from the claim). For a destination list of 100 members and 29
  additions the code returns an additions percentage of 28, while
  \<open>floor (29 / 100 * 100) = 29\<close>: the quotient is rounded to a double below 0.29, and
  its product with 100 is truncated. The example of the specification (empty
  destination list, 5 additions, 3 deletions) evaluates as stated.
\<close>

theorem determine_change_percent_truncates_low:
  "additions_change_percent
     (determine_change_percent (numbered ''user'' 100)
        \<lparr>additions = numbered ''new'' 29, deletions = [], override_required = False\<rparr>) = 28
   \<and> \<lfloor>(29::rat) / 100 * 100\<rfloor> = 29
   \<and> determine_change_percent []
        \<lparr>additions = numbered ''new'' 5, deletions = numbered ''old'' 3,
         override_required = False\<rparr>
       = \<lparr>original_len = 1, deletions_len = 3, additions_len = 5, total_change_size = 8,
          total_change_percent = 800, deletions_change_percent = 300,
          additions_change_percent = 500\<rparr>"
  using percent_29_of_100 percent_8_5_3_of_1
  by (simp add: determine_change_percent_def length_numbered)

section \<open>Applying the operations\<close>

lemma requests_extend_trans:
  assumes "\<exists>n1. c1 = c0 @ n1 \<and> (\<forall>r\<in>set n1. request_values r \<noteq> [])"
    and "\<exists>n2. c2 = c1 @ n2 \<and> (\<forall>r\<in>set n2. request_values r \<noteq> [])"
  shows "\<exists>n. c2 = (c0 :: modify_request list) @ n \<and> (\<forall>r\<in>set n. request_values r \<noteq> [])"
proof -
  obtain n1 where 1: "c1 = c0 @ n1" "\<forall>r\<in>set n1. request_values r \<noteq> []"
    using assms(1) by blast
  obtain n2 where 2: "c2 = c1 @ n2" "\<forall>r\<in>set n2. request_values r \<noteq> []"
    using assms(2) by blast
  have "c2 = c0 @ (n1 @ n2)" using 1 2 by simp
  moreover have "\<forall>r\<in>set (n1 @ n2). request_values r \<noteq> []" using 1 2 by auto
  ultimately show ?thesis by blast
qed

lemma modify_group_empty:
  "modify_calls (snd (modify_group e st conn dn act [] s)) = modify_calls s
   \<and> run_status (snd (modify_group e st conn dn act [] s)) = run_status s
   \<and> user_lookup_cache (snd (modify_group e st conn dn act [] s)) = user_lookup_cache s"
  by (simp add: modify_group_def logger_def split: sum.splits)

lemma modify_group_calls:
  "\<exists>new. modify_calls (snd (modify_group e st conn dn act ul s)) = modify_calls s @ new
          \<and> (\<forall>r\<in>set new. request_values r \<noteq> [])"
proof (cases "ul = []")
  case True
  then show ?thesis using modify_group_empty [of e st conn dn act s] by simp
next
  case False
  then show ?thesis
    by (simp add: modify_group_def logger_def Let_def split: sum.splits)
qed

lemma check_process_changes_calls:
  "modify_calls (snd (check_process_changes e d g ops s)) = modify_calls s"
  by (simp add: check_process_changes_def logger_def Let_def split: option.splits)

lemma process_operations_loop_calls:
  "\<exists>new. modify_calls (snd (process_operations_loop e d ops gs s)) = modify_calls s @ new
          \<and> (\<forall>r\<in>set new. request_values r \<noteq> [])"
proof (induction gs arbitrary: s)
  case Nil
  then show ?case by simp
next
  case (Cons g gs)
  define dn where "dn = ''cn='' @ g @ '','' @ schema_groups e OpenLDAP @ '','' @ schema_base e OpenLDAP"
  obtain r1 s1 where c: "check_process_changes e d g ops s = (r1, s1)" by force
  have s1: "modify_calls s1 = modify_calls s"
    using check_process_changes_calls [of e d g ops s] c by simp
  have refl: "\<exists>new. modify_calls s1 = modify_calls s @ new
                \<and> (\<forall>r\<in>set new. request_values r \<noteq> [])"
    using s1 by simp
  show ?case
  proof (cases r1)
    case (Inl err)
    then show ?thesis using c refl by simp
  next
    case (Inr process_changes)
    show ?thesis
    proof (cases process_changes)
      case False
      then show ?thesis using c Inr Cons.IH [of s1] s1 by simp
    next
      case True
      show ?thesis
      proof (cases "map_of ops g")
        case None
        then show ?thesis using c Inr True refl by simp
      next
        case (Some o1)
        obtain r2 s2 where m2: "modify_group e OpenLDAP OpenLDAP dn MODIFY_ADD (additions o1) s1 = (r2, s2)"
          by force
        have e2: "\<exists>new. modify_calls s2 = modify_calls s @ new
                    \<and> (\<forall>r\<in>set new. request_values r \<noteq> [])"
          using modify_group_calls [of e OpenLDAP OpenLDAP dn MODIFY_ADD "additions o1" s1] m2 s1
          by simp
        show ?thesis
        proof (cases r2)
          case (Inl err)
          then show ?thesis using c Inr True Some m2 e2 by (simp add: dn_def)
        next
          case (Inr u2)
          obtain r3 s3 where m3: "modify_group e OpenLDAP OpenLDAP dn MODIFY_DELETE (deletions o1) s2 = (r3, s3)"
            by force
          have "\<exists>new. modify_calls s3 = modify_calls s2 @ new
                    \<and> (\<forall>r\<in>set new. request_values r \<noteq> [])"
            using modify_group_calls [of e OpenLDAP OpenLDAP dn MODIFY_DELETE "deletions o1" s2] m3
            by simp
          then have e3: "\<exists>new. modify_calls s3 = modify_calls s @ new
                    \<and> (\<forall>r\<in>set new. request_values r \<noteq> [])"
            using e2 requests_extend_trans by blast
          show ?thesis
          proof (cases r3)
            case (Inl err)
            then show ?thesis
              using c \<open>r1 = Inr process_changes\<close> True Some m2 \<open>r2 = Inr u2\<close> m3 e3
              by (simp add: dn_def)
          next
            case (Inr u3)
            have "\<exists>new. modify_calls (snd (process_operations_loop e d ops gs s3))
                      = modify_calls s @ new \<and> (\<forall>r\<in>set new. request_values r \<noteq> [])"
              using Cons.IH [of s3] e3 requests_extend_trans by blast
            then show ?thesis
              using c \<open>r1 = Inr process_changes\<close> True Some m2 \<open>r2 = Inr u2\<close> m3 Inr
              by (simp add: dn_def)
          qed
        qed
      qed
    qed
  qed
qed

text \<open>
  C10. A membership change is sent to the secondary directory only for a non-empty user
  list: \<open>modify_group\<close> with an empty list sends no request and leaves the run
  status as it was, and every request that \<open>process_operations\<close> sends carries at least
  one user.
\<close>

theorem modify_group_only_nonempty:
  "(user_list = [] \<longrightarrow>
      modify_calls (snd (modify_group e st conn dn act user_list s)) = modify_calls s
      \<and> run_status (snd (modify_group e st conn dn act user_list s)) = run_status s)
   \<and> (\<exists>new. modify_calls (snd (process_operations e destination_group_dict group_operations s))
               = modify_calls s @ new
             \<and> (\<forall>r\<in>set new. request_values r \<noteq> []))"
  using modify_group_empty [of e st conn dn act s]
    process_operations_loop_calls [of e destination_group_dict group_operations
      "map fst group_operations" s]
  by (simp add: process_operations_def)

theorem modify_group_only_nonempty_witness:
  "modify_calls (snd (modify_group example_env OpenLDAP OpenLDAP
       ''cn=G,ou=Group,dc=example,dc=com'' MODIFY_ADD [] init_state)) = []
   \<and> run_status (snd (modify_group example_env OpenLDAP OpenLDAP
       ''cn=G,ou=Group,dc=example,dc=com'' MODIFY_ADD [] init_state))"
  using modify_group_only_nonempty [of "[]" example_env OpenLDAP OpenLDAP
      "''cn=G,ou=Group,dc=example,dc=com''" MODIFY_ADD init_state "[]" "[]"]
  by (simp add: init_state_def)

end
